theory Spec2Isabelle
  imports Main
begin

section \<open>Errors, completions and promises\<close>

text \<open>
  A JavaScript \<^verbatim>\<open>new Error(message)\<close> is the value \<open>Error message\<close>. A call either
  throws synchronously or returns; a promise, once the chain it heads has run, is
  fulfilled, rejected with an error, or still pending (it never resolved while it was
  observed).
\<close>

datatype error = Error string

datatype 'a completion = Throw error | Return 'a

datatype promise = Fulfilled | Rejected error | Pending

section \<open>setup-onerror.ts\<close>

text \<open>
  A test context is an object, known by its identity. The value held by
  \<^verbatim>\<open>Ember.onerror\<close>, and the value cached for a context, has the type
  \<^verbatim>\<open>((error: Error) => void) | undefined\<close>: a function (by identity) or undefined.
\<close>

datatype BaseContext = BaseContext nat

datatype onerror = Undefined | Function nat

text \<open>
  The module state: \<^verbatim>\<open>cachedOnerror\<close> is the module's \<^verbatim>\<open>Map\<close>
  (\<open>cachedOnerror s c = None\<close> is \<^verbatim>\<open>!cachedOnerror.has(c)\<close>), \<open>Ember_onerror\<close> is the
  global slot \<^verbatim>\<open>Ember.onerror\<close>, and \<open>getContext\<close> is what
  \<^verbatim>\<open>getContext()\<close> of setup-context returns (\<open>None\<close> for undefined).
\<close>

record onerror_state =
  getContext :: "BaseContext option"
  Ember_onerror :: onerror
  cachedOnerror :: "BaseContext \<rightharpoonup> onerror"

definition setupOnerror :: "onerror \<Rightarrow> onerror_state \<Rightarrow> unit completion \<times> onerror_state" where
  "setupOnerror onError s =
     (case getContext s of
        None \<Rightarrow> (Throw (Error ''Must setup test context before calling setupOnerror''), s)
      | Some context \<Rightarrow>
          (case cachedOnerror s context of
             None \<Rightarrow>
               (Throw (Error ''_cacheOriginalOnerror must be called before setupOnerror. Normally, this will happen as part of your test harness.''), s)
           | Some cached \<Rightarrow>
               (Return (),
                s\<lparr>Ember_onerror := (case onError of Function f \<Rightarrow> Function f | Undefined \<Rightarrow> cached)\<rparr>)))"

text \<open>\<^verbatim>\<open>export const resetOnerror: Function = setupOnerror\<close>: the same function.\<close>

definition resetOnerror :: "onerror \<Rightarrow> onerror_state \<Rightarrow> unit completion \<times> onerror_state" where
  "resetOnerror = setupOnerror"

text \<open>\<^verbatim>\<open>_prepareOnerror(context)\<close>.\<close>

definition prepareOnerror :: "BaseContext \<Rightarrow> onerror_state \<Rightarrow> unit completion \<times> onerror_state" where
  "prepareOnerror context s =
     (case cachedOnerror s context of
        Some cached \<Rightarrow> (Throw (Error ''_prepareOnerror should only be called once per-context''), s)
      | None \<Rightarrow> (Return (), s\<lparr>cachedOnerror := (cachedOnerror s)(context \<mapsto> Ember_onerror s)\<rparr>))"

text \<open>\<^verbatim>\<open>_cleanupOnerror(context)\<close>: \<^verbatim>\<open>resetOnerror()\<close> is called without an argument, and
  the entry is deleted only when that call returned.\<close>

definition cleanupOnerror :: "BaseContext \<Rightarrow> onerror_state \<Rightarrow> unit completion \<times> onerror_state" where
  "cleanupOnerror context s =
     (case resetOnerror Undefined s of
        (Throw e, s') \<Rightarrow> (Throw e, s')
      | (Return u, s') \<Rightarrow> (Return (), s'\<lparr>cachedOnerror := (cachedOnerror s')(context := None)\<rparr>))"

text \<open>The state of the module when it is loaded: an empty \<^verbatim>\<open>Map\<close>.\<close>

definition initial_onerror_state :: "BaseContext option \<Rightarrow> onerror \<Rightarrow> onerror_state" where
  "initial_onerror_state ctx h = \<lparr>getContext = ctx, Ember_onerror = h, cachedOnerror = Map.empty\<rparr>"

section \<open>dom/focus.ts\<close>

subsection \<open>Targets, the document and the collaborators of the module\<close>

text \<open>
  A DOM node is known by its identity. A \<^verbatim>\<open>Target\<close> is a selector string or a node;
  at run time a caller can also pass \<^verbatim>\<open>null\<close> or nothing at all.
\<close>

datatype element = Element nat

datatype target = TNull | TUndefined | TSelector string | TElement element

text \<open>\<^verbatim>\<open>!target\<close>: null, undefined and the empty string are falsy; an object is truthy.\<close>

fun falsy :: "target \<Rightarrow> bool" where
  "falsy TNull = True"
| "falsy TUndefined = True"
| "falsy (TSelector s) = (s = [])"
| "falsy (TElement e) = False"

text \<open>
  The part of the application a call of \<^verbatim>\<open>focus\<close> reads and changes:
  \<^verbatim>\<open>document.activeElement\<close>; \<^verbatim>\<open>document.hasFocus\<close> (\<open>None\<close> when the document has no
  such method, otherwise what a call of it returns); and the pending work of the
  application.

  Modelled from the spec: the pending counters and the settled state (settled.ts is not
  among the sources). The spec gives a set of named counters, each a non-negative
  integer, and an external predicate that reports outstanding requests.
\<close>

record app =
  activeElement :: "element option"
  hasFocus :: "bool option"
  pendingCounters :: "(string \<times> nat) list"
  pendingRequests :: bool

text \<open>What the helper does, in the order it does it.\<close>

datatype phase = Start | End

datatype call =
    RunHooks string phase target
  | Invoke string phase target
  | GetElement target
  | Blur element "element option"
  | FocusCall element
  | FireEvent element string "(string \<times> bool) list"
  | Render string
  | Settled

record world =
  state :: app
  trace :: "call list"

text \<open>
  The functions focus.ts imports and the sources do not hold are parameters:
  \<^verbatim>\<open>getElement\<close>, \<^verbatim>\<open>isFocusable\<close>, the string a node converts to in a
  template literal, the effect \<^verbatim>\<open>__blur__\<close> has on the application, and the effect
  dispatching an event at a node has on it (the listeners of the application).
\<close>

record env =
  getElement :: "target \<Rightarrow> element option"
  isFocusable :: "element \<Rightarrow> bool"
  elementToString :: "element \<Rightarrow> string"
  blurEffect :: "element \<Rightarrow> element option \<Rightarrow> app \<Rightarrow> app"
  listeners :: "element \<Rightarrow> string \<Rightarrow> app \<Rightarrow> app"

text \<open>\<^verbatim>\<open>`${target}`\<close> for a target that passed the guard.\<close>

fun targetToString :: "env \<Rightarrow> target \<Rightarrow> string" where
  "targetToString env TNull = ''null''"
| "targetToString env TUndefined = ''undefined''"
| "targetToString env (TSelector s) = s"
| "targetToString env (TElement e) = elementToString env e"

subsection \<open>The DOM primitives\<close>

definition record_call :: "call \<Rightarrow> world \<Rightarrow> world" where
  "record_call c w = w\<lparr>trace := trace w @ [c]\<rparr>"

text \<open>\<^verbatim>\<open>__blur__(element, relatedTarget)\<close> of dom/blur.ts.\<close>

definition blur_internal :: "env \<Rightarrow> element \<Rightarrow> element option \<Rightarrow> world \<Rightarrow> world" where
  "blur_internal env element relatedTarget w =
     (record_call (Blur element relatedTarget) w)\<lparr>state := blurEffect env element relatedTarget (state w)\<rparr>"

text \<open>\<^verbatim>\<open>fireEvent(element, type, options)\<close> of dom/fire-event.ts.\<close>

definition fireEvent :: "env \<Rightarrow> element \<Rightarrow> string \<Rightarrow> (string \<times> bool) list \<Rightarrow> world \<Rightarrow> world" where
  "fireEvent env element type options w =
     (record_call (FireEvent element type options) w)\<lparr>state := listeners env element type (state w)\<rparr>"

text \<open>
  \<^verbatim>\<open>element.focus()\<close>, as focus.ts describes it: it makes \<^verbatim>\<open>document.activeElement\<close>
  be the element, and if the browser is focused it also fires a focus event.
\<close>

definition element_focus :: "env \<Rightarrow> element \<Rightarrow> world \<Rightarrow> world" where
  "element_focus env element w =
     (let a = (state w)\<lparr>activeElement := Some element\<rparr>
      in (record_call (FocusCall element) w)
           \<lparr>state := (if hasFocus (state w) = Some True then listeners env element ''focus'' a else a)\<rparr>)"

subsection \<open>\<^verbatim>\<open>__focus__\<close>\<close>

definition previousFocusedElement :: "env \<Rightarrow> app \<Rightarrow> element \<Rightarrow> element option" where
  "previousFocusedElement env a element =
     (case activeElement a of
        None \<Rightarrow> None
      | Some active \<Rightarrow> if active \<noteq> element \<and> isFocusable env active then Some active else None)"

text \<open>\<^verbatim>\<open>document.hasFocus && !document.hasFocus()\<close>.\<close>

definition browserIsNotFocused :: "app \<Rightarrow> bool" where
  "browserIsNotFocused a = (case hasFocus a of None \<Rightarrow> False | Some focused \<Rightarrow> \<not> focused)"

definition focus_internal :: "env \<Rightarrow> element \<Rightarrow> world \<Rightarrow> world" where
  "focus_internal env element w =
     (let previous = previousFocusedElement env (state w) element in
      if \<not> isFocusable env element then
        (case previous of Some p \<Rightarrow> blur_internal env p None w | None \<Rightarrow> w)
      else
        let notFocused = browserIsNotFocused (state w);
            w1 = (case previous of
                    Some p \<Rightarrow> if notFocused then blur_internal env p (Some element) w else w
                  | None \<Rightarrow> w);
            w2 = element_focus env element w1
        in if notFocused
           then fireEvent env element ''focusin'' []
                  (fireEvent env element ''focus'' [(''bubbles'', False)] w2)
           else w2)"

subsection \<open>Hooks\<close>

text \<open>
  A hook is a callback of the caller's: it gets the target and either throws or returns,
  and what it returns is awaited. A hook that returns nothing returns \<open>Fulfilled\<close>; one
  that returns a promise returns it as it ends up: fulfilled, rejected, or pending for
  ever. The application a hook gives back is the application at the moment its promise
  is settled, with everything the hook and, while it was awaited, the runtime did to it.
  The registry keeps the callbacks in registration order, each under its
  \<open>(label, phase)\<close> key.
\<close>

type_synonym hook = "target \<Rightarrow> app \<Rightarrow> promise completion \<times> app"

type_synonym registry = "((string \<times> phase) \<times> hook) list"

definition registerHook :: "string \<Rightarrow> phase \<Rightarrow> hook \<Rightarrow> registry \<Rightarrow> registry" where
  "registerHook label ph h reg = reg @ [((label, ph), h)]"

definition registeredHooks :: "registry \<Rightarrow> string \<Rightarrow> phase \<Rightarrow> hook list" where
  "registeredHooks reg label ph = map snd (filter (\<lambda>entry. fst entry = (label, ph)) reg)"

text \<open>
  The hook focus.ts registers when it is loaded calls \<^verbatim>\<open>log('focus', target)\<close>, which
  writes to the console and leaves the application as it is.
\<close>

definition log_hook :: hook where
  "log_hook t a = (Return Fulfilled, a)"

definition module_hooks :: registry where
  "module_hooks = registerHook ''focus'' Start log_hook []"

text \<open>
  Modelled from the spec: \<^verbatim>\<open>runHooks\<close> (-internal/helper-hooks.ts is not among the
  sources). It invokes every callback registered for the label and phase in registration
  order, awaiting each before the next; when a callback fails (it throws, or its promise
  is rejected), the failure is the result and the remaining callbacks are skipped. While
  a callback's promise stays pending the remaining callbacks do not run, and the promise
  of \<^verbatim>\<open>runHooks\<close> stays pending too.
\<close>

fun invoke_hooks :: "string \<Rightarrow> phase \<Rightarrow> target \<Rightarrow> hook list \<Rightarrow> world \<Rightarrow> promise \<times> world" where
  "invoke_hooks label ph t [] w = (Fulfilled, w)"
| "invoke_hooks label ph t (h # hs) w =
     (case h t (state w) of
        (Throw e, a) \<Rightarrow> (Rejected e, (record_call (Invoke label ph t) w)\<lparr>state := a\<rparr>)
      | (Return (Rejected e), a) \<Rightarrow> (Rejected e, (record_call (Invoke label ph t) w)\<lparr>state := a\<rparr>)
      | (Return Pending, a) \<Rightarrow> (Pending, (record_call (Invoke label ph t) w)\<lparr>state := a\<rparr>)
      | (Return Fulfilled, a) \<Rightarrow>
          invoke_hooks label ph t hs ((record_call (Invoke label ph t) w)\<lparr>state := a\<rparr>))"

definition runHooks :: "registry \<Rightarrow> string \<Rightarrow> phase \<Rightarrow> target \<Rightarrow> world \<Rightarrow> promise \<times> world" where
  "runHooks reg label ph t w =
     invoke_hooks label ph t (registeredHooks reg label ph) (record_call (RunHooks label ph t) w)"

subsection \<open>Settling\<close>

text \<open>
  Modelled from the spec: \<^verbatim>\<open>isSettled\<close> and \<^verbatim>\<open>settled\<close> (settled.ts is not among the
  sources). The application is settled iff every pending counter is zero and no request
  is reported outstanding. \<^verbatim>\<open>settled()\<close> never resolves synchronously: it looks at the
  application again after each step of the runtime and resolves the first time it finds
  it settled. The steps the runtime takes while the promise is observed are the list
  \<open>ticks\<close>; a promise that has not resolved when they are used up is still pending.
\<close>

definition isSettled :: "app \<Rightarrow> bool" where
  "isSettled a = (list_all (\<lambda>counter. snd counter = 0) (pendingCounters a) \<and> \<not> pendingRequests a)"

fun waitUntilSettled :: "(app \<Rightarrow> app) list \<Rightarrow> app \<Rightarrow> promise \<times> app" where
  "waitUntilSettled [] a = (Pending, a)"
| "waitUntilSettled (tick # ticks) a =
     (let a' = tick a in if isSettled a' then (Fulfilled, a') else waitUntilSettled ticks a')"

definition settled :: "(app \<Rightarrow> app) list \<Rightarrow> world \<Rightarrow> promise \<times> world" where
  "settled ticks w =
     (case waitUntilSettled ticks (state w) of
        (p, a) \<Rightarrow> (p, (record_call Settled w)\<lparr>state := a\<rparr>))"

subsection \<open>\<^verbatim>\<open>focus\<close>\<close>

text \<open>
  \<^verbatim>\<open>promise.then(callback)\<close>: the callback runs only when the promise is fulfilled; what
  it throws rejects the result, and a promise it returns is the result.
\<close>

definition then_promise ::
  "promise \<times> world \<Rightarrow> (world \<Rightarrow> promise completion \<times> world) \<Rightarrow> promise \<times> world" where
  "then_promise pw callback =
     (case pw of
        (Fulfilled, w) \<Rightarrow>
          (case callback w of
             (Throw e, w') \<Rightarrow> (Rejected e, w')
           | (Return p, w') \<Rightarrow> (p, w'))
      | (Rejected e, w) \<Rightarrow> (Rejected e, w)
      | (Pending, w) \<Rightarrow> (Pending, w))"

text \<open>The callback that returns the promise of \<^verbatim>\<open>runHooks('focus', phase, target)\<close>.\<close>

definition hooks_callback :: "registry \<Rightarrow> phase \<Rightarrow> target \<Rightarrow> world \<Rightarrow> promise completion \<times> world" where
  "hooks_callback reg ph t w = (case runHooks reg ''focus'' ph t w of (p, w') \<Rightarrow> (Return p, w'))"

text \<open>The second callback of the chain: the guards, \<^verbatim>\<open>__focus__\<close> and \<^verbatim>\<open>settled()\<close>.\<close>

definition focus_callback :: "env \<Rightarrow> (app \<Rightarrow> app) list \<Rightarrow> target \<Rightarrow> world \<Rightarrow> promise completion \<times> world" where
  "focus_callback env ticks t w =
     (if falsy t then (Throw (Error ''Must pass an element or selector to `focus`.''), w)
      else
        let w1 = record_call (GetElement t) w in
        case getElement env t of
          None \<Rightarrow>
            (Throw (Error (''Element not found when calling `focus('' @ [CHR 0x27] @ targetToString env t
                           @ [CHR 0x27] @ '')`.'')), w1)
        | Some element \<Rightarrow>
            if \<not> isFocusable env element
            then (Throw (Error (elementToString env element @ '' is not focusable'')), w1)
            else (case settled ticks (focus_internal env element w1) of (p, w2) \<Rightarrow> (Return p, w2)))"

definition focus ::
  "env \<Rightarrow> registry \<Rightarrow> (app \<Rightarrow> app) list \<Rightarrow> target \<Rightarrow> world \<Rightarrow> promise completion \<times> world" where
  "focus env reg ticks t w =
     (case then_promise
             (then_promise
                (then_promise (Fulfilled, w) (hooks_callback reg Start t))
                (focus_callback env ticks t))
             (hooks_callback reg End t) of
        (p, w') \<Rightarrow> (Return p, w'))"

subsection \<open>\<^verbatim>\<open>render\<close>\<close>

text \<open>
  Modelled from the spec: \<^verbatim>\<open>render\<close> (setup-rendering-context.ts is not among the
  sources; its test is). It is the same pipeline under the label \<^verbatim>\<open>render\<close>: the start
  hooks, the rendering of the template, \<^verbatim>\<open>settled()\<close>, and the end hooks last. What
  rendering a template does to the application is a parameter, and the hooks get no
  argument.
\<close>

definition render_hooks_callback :: "registry \<Rightarrow> phase \<Rightarrow> world \<Rightarrow> promise completion \<times> world" where
  "render_hooks_callback reg ph w =
     (case runHooks reg ''render'' ph TUndefined w of (p, w') \<Rightarrow> (Return p, w'))"

definition render_callback ::
  "(string \<Rightarrow> app \<Rightarrow> app) \<Rightarrow> (app \<Rightarrow> app) list \<Rightarrow> string \<Rightarrow> world \<Rightarrow> promise completion \<times> world" where
  "render_callback renderEffect ticks template w =
     (case settled ticks ((record_call (Render template) w)\<lparr>state := renderEffect template (state w)\<rparr>) of
        (p, w') \<Rightarrow> (Return p, w'))"

definition render ::
  "(string \<Rightarrow> app \<Rightarrow> app) \<Rightarrow> registry \<Rightarrow> (app \<Rightarrow> app) list \<Rightarrow> string \<Rightarrow> world \<Rightarrow> promise completion \<times> world" where
  "render renderEffect reg ticks template w =
     (case then_promise
             (then_promise
                (then_promise (Fulfilled, w) (render_hooks_callback reg Start))
                (render_callback renderEffect ticks template))
             (render_hooks_callback reg End) of
        (p, w') \<Rightarrow> (Return p, w'))"


section \<open>An example page\<close>

text \<open>
  A page with an \<^verbatim>\<open>input\<close> (node 1, focusable), a \<^verbatim>\<open>div\<close> (node 2, not focusable)
  and a button (node 3, focusable, holding the focus) in a window that is not focused;
  one timer is pending and fires at the second step of the runtime.
\<close>

definition example_env :: env where
  "example_env =
     \<lparr>getElement = (\<lambda>t. case t of
                       TSelector s \<Rightarrow> (if s = ''input'' then Some (Element 1)
                                       else if s = ''div'' then Some (Element 2) else None)
                     | TElement e \<Rightarrow> Some e
                     | TNull \<Rightarrow> None
                     | TUndefined \<Rightarrow> None),
      isFocusable = (\<lambda>e. e = Element 1 \<or> e = Element 3),
      elementToString = (\<lambda>e. if e = Element 1 then ''[object HTMLInputElement]''
                             else if e = Element 2 then ''[object HTMLDivElement]''
                             else ''[object HTMLButtonElement]''),
      blurEffect = (\<lambda>e r a. a),
      listeners = (\<lambda>e ty a. a)\<rparr>"

definition example_world :: world where
  "example_world =
     \<lparr>state = \<lparr>activeElement = Some (Element 3), hasFocus = Some False,
               pendingCounters = [(''timers'', 1)], pendingRequests = False\<rparr>,
      trace = []\<rparr>"

definition example_ticks :: "(app \<Rightarrow> app) list" where
  "example_ticks =
     [\<lambda>a. a,
      \<lambda>a. a\<lparr>pendingCounters := map (\<lambda>counter. (fst counter, snd counter - 1)) (pendingCounters a)\<rparr>]"

text \<open>
  A hook that throws; one that starts a request and returns; one whose promise never
  settles; and one whose promise is fulfilled after the runtime has taken the given
  steps. Rendering a template starts a timer.
\<close>

definition failing_hook :: hook where
  "failing_hook t a = (Throw (Error ''hook failed''), a)"

definition request_hook :: hook where
  "request_hook t a = (Return Fulfilled, a\<lparr>pendingRequests := True\<rparr>)"

definition hanging_hook :: hook where
  "hanging_hook t a = (Return Pending, a)"

definition awaited_hook :: "(app \<Rightarrow> app) list \<Rightarrow> hook" where
  "awaited_hook steps t a = (Return Fulfilled, fold (\<lambda>tick x. tick x) steps a)"

definition example_render :: "string \<Rightarrow> app \<Rightarrow> app" where
  "example_render template a = a\<lparr>pendingCounters := (''render'', 1) # pendingCounters a\<rparr>"

section \<open>Evaluation and traces\<close>

lemmas eval_defs = focus_def then_promise_def hooks_callback_def focus_callback_def runHooks_def
  registeredHooks_def registerHook_def module_hooks_def log_hook_def failing_hook_def request_hook_def
  hanging_hook_def awaited_hook_def example_render_def render_def render_callback_def
  render_hooks_callback_def
  example_env_def example_world_def example_ticks_def settled_def isSettled_def record_call_def
  focus_internal_def previousFocusedElement_def browserIsNotFocused_def blur_internal_def
  fireEvent_def element_focus_def Let_def

lemma trace_record_call [simp]: "trace (record_call c w) = trace w @ [c]"
  by (simp add: record_call_def)

lemma state_record_call [simp]: "state (record_call c w) = state w"
  by (simp add: record_call_def)

lemma trace_blur_internal [simp]:
  "trace (blur_internal env e r w) = trace w @ [Blur e r]"
  by (simp add: blur_internal_def)

lemma trace_fireEvent [simp]:
  "trace (fireEvent env e ty opts w) = trace w @ [FireEvent e ty opts]"
  by (simp add: fireEvent_def)

lemma trace_element_focus [simp]:
  "trace (element_focus env e w) = trace w @ [FocusCall e]"
  by (simp add: element_focus_def Let_def)

lemma state_blur_internal [simp]:
  "state (blur_internal env e r w) = blurEffect env e r (state w)"
  by (simp add: blur_internal_def)


lemma invoke_hooks_trace:
  "\<exists>k\<le>length hs. trace (snd (invoke_hooks l ph t hs w)) = trace w @ replicate k (Invoke l ph t) \<and>
     (fst (invoke_hooks l ph t hs w) = Fulfilled \<longrightarrow> k = length hs)"
proof (induction hs arbitrary: w)
  case Nil
  then show ?case by simp
next
  case (Cons h hs)
  obtain r a where h: "h t (state w) = (r, a)" by (cases "h t (state w)")
  let ?w = "(record_call (Invoke l ph t) w)\<lparr>state := a\<rparr>"
  show ?case
  proof (cases "r = Return Fulfilled")
    case True
    from Cons.IH[of ?w] obtain k where k: "k \<le> length hs"
      "trace (snd (invoke_hooks l ph t hs ?w)) = trace ?w @ replicate k (Invoke l ph t)"
      "fst (invoke_hooks l ph t hs ?w) = Fulfilled \<longrightarrow> k = length hs" by blast
    from h True have eq: "invoke_hooks l ph t (h # hs) w = invoke_hooks l ph t hs ?w" by simp
    show ?thesis
      using k unfolding eq by (intro exI[of _ "Suc k"]) (simp add: replicate_append_same)
  next
    case False
    with h have "snd (invoke_hooks l ph t (h # hs) w) = ?w"
      and "fst (invoke_hooks l ph t (h # hs) w) \<noteq> Fulfilled"
      by (auto split: completion.splits promise.splits)
    then show ?thesis by (intro exI[of _ 1]) simp
  qed
qed

lemma runHooks_trace:
  "\<exists>k\<le>length (registeredHooks reg l ph).
     trace (snd (runHooks reg l ph t w)) = trace w @ RunHooks l ph t # replicate k (Invoke l ph t) \<and>
     (fst (runHooks reg l ph t w) = Fulfilled \<longrightarrow> k = length (registeredHooks reg l ph))"
  using invoke_hooks_trace[of "registeredHooks reg l ph" l ph t "record_call (RunHooks l ph t) w"]
  by (simp add: runHooks_def)










section \<open>The outcomes of \<^verbatim>\<open>focus\<close>\<close>

text \<open>One lemma for each way through the promise chain.\<close>

lemma focus_case_hook_rejected:
  "runHooks reg ''focus'' Start t w = (Rejected e, w1) \<Longrightarrow>
     focus env reg ticks t w = (Return (Rejected e), w1)"
  by (simp add: focus_def then_promise_def hooks_callback_def)

lemma focus_case_hook_pending:
  "runHooks reg ''focus'' Start t w = (Pending, w1) \<Longrightarrow>
     focus env reg ticks t w = (Return Pending, w1)"
  by (simp add: focus_def then_promise_def hooks_callback_def)

lemma focus_case_missing:
  "runHooks reg ''focus'' Start t w = (Fulfilled, w1) \<Longrightarrow> falsy t \<Longrightarrow>
     focus env reg ticks t w =
       (Return (Rejected (Error ''Must pass an element or selector to `focus`.'')), w1)"
  by (simp add: focus_def then_promise_def hooks_callback_def focus_callback_def)

lemma focus_case_not_found:
  "runHooks reg ''focus'' Start t w = (Fulfilled, w1) \<Longrightarrow> \<not> falsy t \<Longrightarrow> getElement env t = None \<Longrightarrow>
     focus env reg ticks t w =
       (Return (Rejected (Error (''Element not found when calling `focus('' @ [CHR 0x27]
                                 @ targetToString env t @ [CHR 0x27] @ '')`.''))),
        record_call (GetElement t) w1)"
  by (simp add: focus_def then_promise_def hooks_callback_def focus_callback_def Let_def)

lemma focus_case_not_focusable:
  "runHooks reg ''focus'' Start t w = (Fulfilled, w1) \<Longrightarrow> \<not> falsy t \<Longrightarrow> getElement env t = Some e \<Longrightarrow>
   \<not> isFocusable env e \<Longrightarrow>
     focus env reg ticks t w =
       (Return (Rejected (Error (elementToString env e @ '' is not focusable''))),
        record_call (GetElement t) w1)"
  by (simp add: focus_def then_promise_def hooks_callback_def focus_callback_def Let_def)







section \<open>The claims\<close>








text \<open>
  Claim C4. For a target that is null or undefined, and start hooks that complete, the
  promise of \<^verbatim>\<open>focus\<close> rejects with
  \<^verbatim>\<open>Must pass an element or selector to `focus`.\<close>; when a start hook fails, the promise
  rejects with that hook's error instead and the guard is never reached.
\<close>

theorem focus_missing_target_rejects:
  "((t = TNull \<or> t = TUndefined) \<and> fst (runHooks reg ''focus'' Start t w) = Fulfilled \<longrightarrow>
      focus env reg ticks t w =
        (Return (Rejected (Error ''Must pass an element or selector to `focus`.'')),
         snd (runHooks reg ''focus'' Start t w))) \<and>
   (fst (runHooks reg ''focus'' Start t w) = Rejected e \<longrightarrow>
      focus env reg ticks t w = (Return (Rejected e), snd (runHooks reg ''focus'' Start t w)))"
proof (intro conjI impI)
  assume a: "(t = TNull \<or> t = TUndefined) \<and> fst (runHooks reg ''focus'' Start t w) = Fulfilled"
  then have "falsy t" by auto
  moreover from a have "runHooks reg ''focus'' Start t w = (Fulfilled, snd (runHooks reg ''focus'' Start t w))"
    by (metis prod.collapse)
  ultimately show "focus env reg ticks t w =
        (Return (Rejected (Error ''Must pass an element or selector to `focus`.'')),
         snd (runHooks reg ''focus'' Start t w))"
    by (intro focus_case_missing)
next
  assume "fst (runHooks reg ''focus'' Start t w) = Rejected e"
  then have "runHooks reg ''focus'' Start t w = (Rejected e, snd (runHooks reg ''focus'' Start t w))"
    by (metis prod.collapse)
  then show "focus env reg ticks t w = (Return (Rejected e), snd (runHooks reg ''focus'' Start t w))"
    by (rule focus_case_hook_rejected)
qed

theorem focus_missing_target_rejects_witness:
  "fst (runHooks module_hooks ''focus'' Start TNull example_world) = Fulfilled \<and>
   fst (focus example_env module_hooks example_ticks TNull example_world) =
     Return (Rejected (Error ''Must pass an element or selector to `focus`.'')) \<and>
   fst (runHooks module_hooks ''focus'' Start TUndefined example_world) = Fulfilled \<and>
   fst (focus example_env module_hooks example_ticks TUndefined example_world) =
     Return (Rejected (Error ''Must pass an element or selector to `focus`.'')) \<and>
   fst (runHooks (registerHook ''focus'' Start failing_hook module_hooks) ''focus'' Start TNull example_world)
     = Rejected (Error ''hook failed'') \<and>
   fst (focus example_env (registerHook ''focus'' Start failing_hook module_hooks) example_ticks TNull
          example_world) = Return (Rejected (Error ''hook failed''))"
proof -
  have h: "(TNull = TNull \<or> TNull = TUndefined) \<and>
           fst (runHooks module_hooks ''focus'' Start TNull example_world) = Fulfilled"
    "(TUndefined = TNull \<or> TUndefined = TUndefined) \<and>
           fst (runHooks module_hooks ''focus'' Start TUndefined example_world) = Fulfilled"
    "fst (runHooks (registerHook ''focus'' Start failing_hook module_hooks) ''focus'' Start TNull example_world)
       = Rejected (Error ''hook failed'')"
    by (simp_all add: eval_defs)
  from focus_missing_target_rejects[where t = TNull and reg = module_hooks and w = example_world
          and env = example_env and ticks = example_ticks]
       focus_missing_target_rejects[where t = TUndefined and reg = module_hooks and w = example_world
          and env = example_env and ticks = example_ticks]
       focus_missing_target_rejects[where t = TNull
          and reg = "registerHook ''focus'' Start failing_hook module_hooks"
          and w = example_world and e = "Error ''hook failed''" and env = example_env
          and ticks = example_ticks]
       h
  show ?thesis by simp
qed

theorem focus_missing_target_counterexample:
  "fst (focus example_env (registerHook ''focus'' Start failing_hook module_hooks) example_ticks TNull
          example_world) = Return (Rejected (Error ''hook failed'')) \<and>
   fst (focus example_env (registerHook ''focus'' Start failing_hook module_hooks) example_ticks TNull
          example_world) \<noteq> Return (Rejected (Error ''Must pass an element or selector to `focus`.''))"
  by (simp add: eval_defs)

text \<open>
  Claim C5. For a target that passes the missing-target guard and that \<^verbatim>\<open>getElement\<close>
  resolves to no element, and start hooks that complete, the promise of \<^verbatim>\<open>focus\<close>
  rejects with the not-found error, whose message holds the selector between the quotes.
\<close>

theorem focus_element_not_found_rejects:
  assumes "\<not> falsy t" and "getElement env t = None"
    and "fst (runHooks reg ''focus'' Start t w) = Fulfilled"
  shows "focus env reg ticks t w =
           (Return (Rejected (Error (''Element not found when calling `focus('' @ [CHR 0x27]
                                     @ targetToString env t @ [CHR 0x27] @ '')`.''))),
            record_call (GetElement t) (snd (runHooks reg ''focus'' Start t w))) \<and>
         targetToString env (TSelector s) = s"
proof -
  from assms(3) have "runHooks reg ''focus'' Start t w = (Fulfilled, snd (runHooks reg ''focus'' Start t w))"
    by (metis prod.collapse)
  with assms(1,2) show ?thesis by (simp add: focus_case_not_found)
qed

theorem focus_element_not_found_rejects_witness:
  "\<not> falsy (TSelector ''#nothing'') \<and> getElement example_env (TSelector ''#nothing'') = None \<and>
   fst (runHooks module_hooks ''focus'' Start (TSelector ''#nothing'') example_world) = Fulfilled \<and>
   fst (focus example_env module_hooks example_ticks (TSelector ''#nothing'') example_world) =
     Return (Rejected (Error (''Element not found when calling `focus('' @ [CHR 0x27] @ ''#nothing''
                               @ [CHR 0x27] @ '')`.'')))"
proof -
  have h: "\<not> falsy (TSelector ''#nothing'')" "getElement example_env (TSelector ''#nothing'') = None"
    "fst (runHooks module_hooks ''focus'' Start (TSelector ''#nothing'') example_world) = Fulfilled"
    by (simp_all add: eval_defs)
  from focus_element_not_found_rejects[OF h, of example_ticks] h show ?thesis by simp
qed

theorem focus_element_not_found_counterexample:
  "getElement example_env (TSelector ''#nothing'') = None \<and>
   fst (focus example_env (registerHook ''focus'' Start failing_hook module_hooks) example_ticks
          (TSelector ''#nothing'') example_world) = Return (Rejected (Error ''hook failed'')) \<and>
   getElement example_env (TSelector []) = None \<and>
   fst (focus example_env module_hooks example_ticks (TSelector []) example_world) =
     Return (Rejected (Error ''Must pass an element or selector to `focus`.''))"
  by (simp add: eval_defs)

text \<open>
  Claim C6. For a target that passes the missing-target guard and resolves to an element
  that is not focusable, \<^verbatim>\<open>focus\<close> makes no DOM call, whatever hooks are registered:
  it runs the start hooks and at most the lookup, and leaves the application as the
  start hooks left it. Its promise rejects with the error
  \<^verbatim>\<open>${element} is not focusable\<close> when the start hooks complete, and with the hook's
  error when one of them fails; it is rejected whenever the start hooks settle.
\<close>

theorem focus_not_focusable_rejects:
  assumes "\<not> falsy t" and "getElement env t = Some e" and "\<not> isFocusable env e"
  shows "(\<exists>k. trace (snd (focus env reg ticks t w)) =
            trace w @ RunHooks ''focus'' Start t # replicate k (Invoke ''focus'' Start t)
            @ (if fst (runHooks reg ''focus'' Start t w) = Fulfilled then [GetElement t] else [])) \<and>
         state (snd (focus env reg ticks t w)) = state (snd (runHooks reg ''focus'' Start t w)) \<and>
         (fst (runHooks reg ''focus'' Start t w) = Fulfilled \<longrightarrow>
            focus env reg ticks t w =
              (Return (Rejected (Error (elementToString env e @ '' is not focusable''))),
               record_call (GetElement t) (snd (runHooks reg ''focus'' Start t w)))) \<and>
         (\<forall>err. fst (runHooks reg ''focus'' Start t w) = Rejected err \<longrightarrow>
            fst (focus env reg ticks t w) = Return (Rejected err)) \<and>
         (fst (runHooks reg ''focus'' Start t w) \<noteq> Pending \<longrightarrow>
            (\<exists>err. fst (focus env reg ticks t w) = Return (Rejected err)))"
proof -
  obtain p w1 where r: "runHooks reg ''focus'' Start t w = (p, w1)"
    by (cases "runHooks reg ''focus'' Start t w")
  from runHooks_trace[of reg "''focus''" Start t w] r obtain k where
    k: "trace w1 = trace w @ RunHooks ''focus'' Start t # replicate k (Invoke ''focus'' Start t)"
    by auto
  show ?thesis
  proof (cases p)
    case Fulfilled
    with r assms have "focus env reg ticks t w =
        (Return (Rejected (Error (elementToString env e @ '' is not focusable''))),
         record_call (GetElement t) w1)"
      by (simp add: focus_case_not_focusable)
    with r Fulfilled k show ?thesis by simp
  next
    case (Rejected err)
    with r have "focus env reg ticks t w = (Return (Rejected err), w1)"
      by (simp add: focus_case_hook_rejected)
    with r Rejected k show ?thesis by simp
  next
    case Pending
    with r have "focus env reg ticks t w = (Return Pending, w1)"
      by (simp add: focus_case_hook_pending)
    with r Pending k show ?thesis by simp
  qed
qed

theorem focus_not_focusable_rejects_witness:
  "\<not> falsy (TSelector ''div'') \<and> getElement example_env (TSelector ''div'') = Some (Element 2) \<and>
   \<not> isFocusable example_env (Element 2) \<and>
   fst (runHooks module_hooks ''focus'' Start (TSelector ''div'') example_world) = Fulfilled \<and>
   focus example_env module_hooks example_ticks (TSelector ''div'') example_world =
     (Return (Rejected (Error ''[object HTMLDivElement] is not focusable'')),
      example_world\<lparr>trace := [RunHooks ''focus'' Start (TSelector ''div''),
                              Invoke ''focus'' Start (TSelector ''div''),
                              GetElement (TSelector ''div'')]\<rparr>) \<and>
   fst (runHooks (registerHook ''focus'' Start failing_hook module_hooks) ''focus'' Start
          (TSelector ''div'') example_world) = Rejected (Error ''hook failed'') \<and>
   focus example_env (registerHook ''focus'' Start failing_hook module_hooks) example_ticks
       (TSelector ''div'') example_world =
     (Return (Rejected (Error ''hook failed'')),
      example_world\<lparr>trace := [RunHooks ''focus'' Start (TSelector ''div''),
                              Invoke ''focus'' Start (TSelector ''div''),
                              Invoke ''focus'' Start (TSelector ''div'')]\<rparr>)"
proof -
  have h: "\<not> falsy (TSelector ''div'')" "getElement example_env (TSelector ''div'') = Some (Element 2)"
    "\<not> isFocusable example_env (Element 2)"
    by (simp_all add: eval_defs)
  from focus_not_focusable_rejects[OF h, of module_hooks example_ticks example_world]
       focus_not_focusable_rejects[OF h, of "registerHook ''focus'' Start failing_hook module_hooks"
          example_ticks example_world] h
  show ?thesis
    by (simp add: eval_defs)
qed

theorem focus_not_focusable_counterexample:
  "getElement example_env (TSelector ''div'') = Some (Element 2) \<and>
   \<not> isFocusable example_env (Element 2) \<and>
   fst (focus example_env (registerHook ''focus'' Start failing_hook module_hooks) example_ticks
          (TSelector ''div'') example_world) = Return (Rejected (Error ''hook failed'')) \<and>
   fst (focus example_env (registerHook ''focus'' Start failing_hook module_hooks) example_ticks
          (TSelector ''div'') example_world)
     \<noteq> Return (Rejected (Error (elementToString example_env (Element 2) @ '' is not focusable''))) \<and>
   fst (focus example_env (registerHook ''focus'' Start hanging_hook module_hooks) example_ticks
          (TSelector ''div'') example_world) = Return Pending"
  by (simp add: eval_defs)

text \<open>
  Claim C7. \<^verbatim>\<open>focus\<close> never throws to its caller, whatever the input. For a missing
  target, a selector that resolves to nothing or an element that is not focusable, the
  promise it returns is rejected once the start hooks have settled; while a start hook's
  promise is pending, the promise of \<^verbatim>\<open>focus\<close> is pending too.
\<close>

theorem focus_rejects_never_throws:
  assumes "falsy t \<or> getElement env t = None \<or> (\<exists>e. getElement env t = Some e \<and> \<not> isFocusable env e)"
  shows "(fst (runHooks reg ''focus'' Start t w) \<noteq> Pending \<longrightarrow>
            (\<exists>err. fst (focus env reg ticks t w) = Return (Rejected err))) \<and>
         (fst (runHooks reg ''focus'' Start t w) = Pending \<longrightarrow>
            fst (focus env reg ticks t w) = Return Pending) \<and>
         (\<forall>err. fst (focus env reg ticks t w) \<noteq> Throw err)"
proof -
  obtain p w1 where r: "runHooks reg ''focus'' Start t w = (p, w1)"
    by (cases "runHooks reg ''focus'' Start t w")
  have nothrow: "\<forall>err. fst (focus env reg ticks t w) \<noteq> Throw err"
    by (simp add: focus_def split: prod.splits)
  show ?thesis
  proof (cases p)
    case Fulfilled
    with r have f: "runHooks reg ''focus'' Start t w = (Fulfilled, w1)" by simp
    have "\<exists>err. fst (focus env reg ticks t w) = Return (Rejected err)"
    proof (cases "falsy t")
      case True
      with f show ?thesis by (simp add: focus_case_missing)
    next
      case False
      with assms f show ?thesis
        by (auto simp: focus_case_not_found focus_case_not_focusable)
    qed
    with f nothrow show ?thesis by simp
  next
    case (Rejected e)
    with r have "focus env reg ticks t w = (Return (Rejected e), w1)"
      by (simp add: focus_case_hook_rejected)
    with r Rejected nothrow show ?thesis by simp
  next
    case Pending
    with r have "focus env reg ticks t w = (Return Pending, w1)"
      by (simp add: focus_case_hook_pending)
    with r Pending nothrow show ?thesis by simp
  qed
qed

theorem focus_rejects_never_throws_witness:
  "falsy TNull \<and>
   fst (runHooks module_hooks ''focus'' Start TNull example_world) \<noteq> Pending \<and>
   fst (focus example_env module_hooks example_ticks TNull example_world) =
     Return (Rejected (Error ''Must pass an element or selector to `focus`.'')) \<and>
   getElement example_env (TSelector ''#nothing'') = None \<and>
   (\<exists>err. fst (focus example_env module_hooks example_ticks (TSelector ''#nothing'') example_world) =
      Return (Rejected err)) \<and>
   getElement example_env (TSelector ''div'') = Some (Element 2) \<and> \<not> isFocusable example_env (Element 2) \<and>
   fst (runHooks (registerHook ''focus'' Start failing_hook module_hooks) ''focus'' Start
          (TSelector ''div'') example_world) \<noteq> Pending \<and>
   (\<exists>err. fst (focus example_env (registerHook ''focus'' Start failing_hook module_hooks) example_ticks
                 (TSelector ''div'') example_world) = Return (Rejected err)) \<and>
   fst (runHooks (registerHook ''focus'' Start hanging_hook module_hooks) ''focus'' Start TNull
          example_world) = Pending \<and>
   fst (focus example_env (registerHook ''focus'' Start hanging_hook module_hooks) example_ticks TNull
          example_world) = Return Pending"
proof -
  have h: "falsy TNull \<or> getElement example_env TNull = None \<or>
           (\<exists>e. getElement example_env TNull = Some e \<and> \<not> isFocusable example_env e)"
    "falsy (TSelector ''#nothing'') \<or> getElement example_env (TSelector ''#nothing'') = None \<or>
           (\<exists>e. getElement example_env (TSelector ''#nothing'') = Some e \<and> \<not> isFocusable example_env e)"
    "falsy (TSelector ''div'') \<or> getElement example_env (TSelector ''div'') = None \<or>
           (\<exists>e. getElement example_env (TSelector ''div'') = Some e \<and> \<not> isFocusable example_env e)"
    by (simp_all add: example_env_def)
  have e: "fst (focus example_env module_hooks example_ticks TNull example_world) =
     Return (Rejected (Error ''Must pass an element or selector to `focus`.''))"
    "getElement example_env (TSelector ''#nothing'') = None"
    "getElement example_env (TSelector ''div'') = Some (Element 2)" "\<not> isFocusable example_env (Element 2)"
    "fst (runHooks module_hooks ''focus'' Start TNull example_world) \<noteq> Pending"
    "fst (runHooks module_hooks ''focus'' Start (TSelector ''#nothing'') example_world) \<noteq> Pending"
    "fst (runHooks (registerHook ''focus'' Start failing_hook module_hooks) ''focus'' Start
          (TSelector ''div'') example_world) \<noteq> Pending"
    "fst (runHooks (registerHook ''focus'' Start hanging_hook module_hooks) ''focus'' Start TNull
          example_world) = Pending"
    by (simp_all add: eval_defs)
  from focus_rejects_never_throws[OF h(1), of module_hooks example_world example_ticks]
       focus_rejects_never_throws[OF h(2), of module_hooks example_world example_ticks]
       focus_rejects_never_throws[OF h(3), of "registerHook ''focus'' Start failing_hook module_hooks"
          example_world example_ticks]
       focus_rejects_never_throws[OF h(1), of "registerHook ''focus'' Start hanging_hook module_hooks"
          example_world example_ticks] e
  show ?thesis by simp
qed

theorem focus_rejects_counterexample:
  "falsy TNull \<and>
   fst (focus example_env (registerHook ''focus'' Start hanging_hook module_hooks) example_ticks TNull
          example_world) = Return Pending \<and>
   (\<forall>err. fst (focus example_env (registerHook ''focus'' Start hanging_hook module_hooks) example_ticks
                 TNull example_world) \<noteq> Return (Rejected err))"
  by (simp add: eval_defs)

text \<open>
  Claim C8. \<^verbatim>\<open>setupOnerror\<close>, and \<^verbatim>\<open>resetOnerror\<close> which is the same function, throws
  when there is no test context, and when the context has no entry in the cache (as for
  every context when the module has just been loaded); in both cases the state, and so
  \<^verbatim>\<open>Ember.onerror\<close>, is left as it was.
\<close>

theorem setupOnerror_usage_error:
  "(getContext s = None \<longrightarrow>
      setupOnerror onError s =
        (Throw (Error ''Must setup test context before calling setupOnerror''), s)) \<and>
   (\<forall>c. getContext s = Some c \<and> cachedOnerror s c = None \<longrightarrow>
      setupOnerror onError s =
        (Throw (Error ''_cacheOriginalOnerror must be called before setupOnerror. Normally, this will happen as part of your test harness.''), s)) \<and>
   resetOnerror onError s = setupOnerror onError s \<and>
   cachedOnerror (initial_onerror_state ctx h) c0 = None"
  by (simp add: setupOnerror_def resetOnerror_def initial_onerror_state_def)

theorem setupOnerror_usage_error_witness:
  "setupOnerror (Function 1) \<lparr>getContext = None, Ember_onerror = Function 7, cachedOnerror = Map.empty\<rparr> =
     (Throw (Error ''Must setup test context before calling setupOnerror''),
      \<lparr>getContext = None, Ember_onerror = Function 7, cachedOnerror = Map.empty\<rparr>) \<and>
   resetOnerror Undefined (initial_onerror_state (Some (BaseContext 1)) (Function 7)) =
     (Throw (Error ''_cacheOriginalOnerror must be called before setupOnerror. Normally, this will happen as part of your test harness.''),
      initial_onerror_state (Some (BaseContext 1)) (Function 7))"
  using setupOnerror_usage_error [of "\<lparr>getContext = None, Ember_onerror = Function 7, cachedOnerror = Map.empty\<rparr>" "Function 1"]
        setupOnerror_usage_error [of "initial_onerror_state (Some (BaseContext 1)) (Function 7)" Undefined "Some (BaseContext 1)" "Function 7" "BaseContext 1"]
  by (simp add: initial_onerror_state_def)

text \<open>
  Claim C9. \<^verbatim>\<open>_prepareOnerror(c)\<close> stores the current \<^verbatim>\<open>Ember.onerror\<close> under the key
  \<open>c\<close> and leaves the entries of all other contexts alone; \<^verbatim>\<open>setupOnerror\<close> without a
  function sets \<^verbatim>\<open>Ember.onerror\<close> to the value cached for the current context. With two
  contexts prepared at different times, resetting under each one restores the value that
  was cached for that one.
\<close>

theorem onerror_cached_per_context:
  "(cachedOnerror s c = None \<longrightarrow>
      prepareOnerror c s =
        (Return (), s\<lparr>cachedOnerror := (cachedOnerror s)(c \<mapsto> Ember_onerror s)\<rparr>)) \<and>
   (\<forall>c'. c' \<noteq> c \<longrightarrow> cachedOnerror (snd (prepareOnerror c s)) c' = cachedOnerror s c') \<and>
   (getContext s = Some c \<and> cachedOnerror s c = Some v \<longrightarrow>
      setupOnerror Undefined s = (Return (), s\<lparr>Ember_onerror := v\<rparr>) \<and>
      resetOnerror Undefined s = (Return (), s\<lparr>Ember_onerror := v\<rparr>)) \<and>
   (c \<noteq> c2 \<and> cachedOnerror s c = None \<and> cachedOnerror s c2 = None \<longrightarrow>
      (let s1 = snd (prepareOnerror c s);
           s2 = snd (setupOnerror (Function f) (s1\<lparr>getContext := Some c\<rparr>));
           s3 = snd (prepareOnerror c2 s2)
       in Ember_onerror (snd (resetOnerror Undefined (s3\<lparr>getContext := Some c\<rparr>))) = Ember_onerror s \<and>
          Ember_onerror (snd (resetOnerror Undefined (s3\<lparr>getContext := Some c2\<rparr>))) = Function f))"
  by (auto simp: setupOnerror_def resetOnerror_def prepareOnerror_def Let_def split: option.splits)

theorem onerror_cached_per_context_witness:
  "prepareOnerror (BaseContext 1) (initial_onerror_state (Some (BaseContext 1)) (Function 7)) =
     (Return (), \<lparr>getContext = Some (BaseContext 1), Ember_onerror = Function 7,
                  cachedOnerror = [BaseContext 1 \<mapsto> Function 7]\<rparr>) \<and>
   setupOnerror Undefined \<lparr>getContext = Some (BaseContext 1), Ember_onerror = Function 9,
                            cachedOnerror = [BaseContext 1 \<mapsto> Function 7]\<rparr> =
     (Return (), \<lparr>getContext = Some (BaseContext 1), Ember_onerror = Function 7,
                  cachedOnerror = [BaseContext 1 \<mapsto> Function 7]\<rparr>) \<and>
   (let s1 = snd (prepareOnerror (BaseContext 1) (initial_onerror_state None (Function 7)));
        s2 = snd (setupOnerror (Function 9) (s1\<lparr>getContext := Some (BaseContext 1)\<rparr>));
        s3 = snd (prepareOnerror (BaseContext 2) s2)
    in Ember_onerror (snd (resetOnerror Undefined (s3\<lparr>getContext := Some (BaseContext 1)\<rparr>))) = Function 7 \<and>
       Ember_onerror (snd (resetOnerror Undefined (s3\<lparr>getContext := Some (BaseContext 2)\<rparr>))) = Function 9)"
  using onerror_cached_per_context
          [of "initial_onerror_state (Some (BaseContext 1)) (Function 7)" "BaseContext 1"]
        onerror_cached_per_context
          [of "\<lparr>getContext = Some (BaseContext 1), Ember_onerror = Function 9,
                cachedOnerror = [BaseContext 1 \<mapsto> Function 7]\<rparr>" "BaseContext 1" "Function 7"]
        onerror_cached_per_context
          [of "initial_onerror_state None (Function 7)" "BaseContext 1" _ "BaseContext 2" 9]
  by (simp add: initial_onerror_state_def setupOnerror_def resetOnerror_def prepareOnerror_def Let_def)

text \<open>
  Claim C10. For an element that is not focusable, \<^verbatim>\<open>__focus__\<close> calls neither
  \<^verbatim>\<open>element.focus()\<close> nor \<^verbatim>\<open>fireEvent\<close>: if another, focusable element is
  \<^verbatim>\<open>document.activeElement\<close> it calls \<^verbatim>\<open>__blur__\<close> on that element with a null
  related target and nothing else, and otherwise it does nothing at all.
\<close>

theorem focus_internal_not_focusable:
  assumes "\<not> isFocusable env e"
  shows "(\<forall>a. activeElement (state w) = Some a \<and> a \<noteq> e \<and> isFocusable env a \<longrightarrow>
            focus_internal env e w = blur_internal env a None w \<and>
            trace (focus_internal env e w) = trace w @ [Blur a None]) \<and>
         ((\<forall>a. activeElement (state w) = Some a \<longrightarrow> a = e \<or> \<not> isFocusable env a) \<longrightarrow>
            focus_internal env e w = w)"
  using assms
  by (auto simp: focus_internal_def previousFocusedElement_def Let_def split: option.splits)

theorem focus_internal_not_focusable_witness:
  "\<not> isFocusable example_env (Element 2) \<and>
   trace (focus_internal example_env (Element 2) example_world) = [Blur (Element 3) None] \<and>
   focus_internal example_env (Element 2) (example_world\<lparr>state := (state example_world)\<lparr>activeElement := None\<rparr>\<rparr>)
     = example_world\<lparr>state := (state example_world)\<lparr>activeElement := None\<rparr>\<rparr>"
proof -
  have h: "\<not> isFocusable example_env (Element 2)" by (simp add: example_env_def)
  from focus_internal_not_focusable[OF h, of example_world]
       focus_internal_not_focusable[OF h, of "example_world\<lparr>state := (state example_world)\<lparr>activeElement := None\<rparr>\<rparr>"]
       h
  show ?thesis by (simp add: example_env_def example_world_def)
qed

end
